theory Spec2Isabelle
  imports Complex_Main "HOL-Library.Sublist"
begin

section \<open>Data model of App.jsx\<close>

text \<open>
  The component keeps six pieces of React state (App.jsx lines 6-11) and talks to four
  browser facilities: \<open>localStorage\<close>, \<open>console\<close>, \<open>navigator.geolocation\<close> and the
  text input behind \<open>inputRef\<close>. All of them are fields of one record, and every handler
  is a function from that record to the updated one.

  Coordinates are JavaScript numbers. The component stores and forwards them and never
  computes on them, so they are carried as reals.
\<close>

datatype accuracy = FromSearch | Meters real

record location =
  name :: string
  lat :: real
  lng :: real
  accuracy :: accuracy
  timestamp :: string

text \<open>The options object passed to \<open>getCurrentPosition\<close> (lines 138-142).\<close>

record position_options =
  enableHighAccuracy :: bool
  timeout :: nat
  maximumAge :: nat

record app =
  location :: "location option"
  error :: string
  loading :: bool
  copied :: bool
  history :: "location list"
  showHistory :: bool
  inputValue :: string
  localStorage :: "string \<rightharpoonup> string"
  console :: "string list"
  geolocation_supported :: bool
  geo_requests :: "position_options list"

text \<open>
  \<open>JSON.parse\<close> and \<open>JSON.stringify\<close> belong to the platform, not to the repository;
  they are parameters of the model. \<open>JSON_parse\<close> answers \<open>None\<close> where the platform
  function throws, and the array of locations where the text is one. A text that parses
  to anything else (\<open>null\<close>, an object, a number) has no value in this model: the
  component never writes one, and what it does after reading one is stated by no
  theorem here. Writes to \<open>localStorage\<close> are taken to succeed (no quota failure).
\<close>

record json =
  JSON_parse :: "string \<Rightarrow> location list option"
  JSON_stringify :: "location list \<Rightarrow> string"

definition HISTORY_KEY :: string where
  "HISTORY_KEY = ''locationHistory''"

section \<open>The recent-locations store\<close>

text \<open>
  The updater handed to \<open>setHistory\<close> by \<open>addToHistory\<close> (lines 98-104):
  \<^verbatim>\<open>prev.filter(item => item.name !== loc.name)\<close>, then
  \<^verbatim>\<open>[loc, ...filtered].slice(0, 5)\<close>.
\<close>

definition addToHistory :: "location \<Rightarrow> location list \<Rightarrow> location list" where
  "addToHistory loc prev =
     (let filtered = filter (\<lambda>item. name item \<noteq> name loc) prev
      in take 5 (loc # filtered))"

text \<open>
  The second effect (lines 92-96) runs after every render in which \<open>history\<close> is a new
  array, and writes only a non-empty history.
\<close>

definition persist_effect :: "json \<Rightarrow> app \<Rightarrow> app" where
  "persist_effect J w =
     (if length (history w) > 0
      then w\<lparr>localStorage := (localStorage w)(HISTORY_KEY \<mapsto> JSON_stringify J (history w))\<rparr>
      else w)"

text \<open>
  The hydration part of the first effect (lines 80-88). \<^verbatim>\<open>if (savedHistory)\<close> is false
  for a missing key (\<open>null\<close>) and for the empty string; a throwing \<open>JSON.parse\<close> is
  caught and reported with \<open>console.error\<close>.
\<close>

definition PARSE_FAILURE :: string where
  "PARSE_FAILURE = ''Failed to parse location history''"

definition load_effect :: "json \<Rightarrow> app \<Rightarrow> app" where
  "load_effect J w =
     (case localStorage w HISTORY_KEY of
        None \<Rightarrow> w
      | Some savedHistory \<Rightarrow>
          if savedHistory = [] then w
          else (case JSON_parse J savedHistory of
                  None \<Rightarrow> w\<lparr>console := console w @ [PARSE_FAILURE]\<rparr>
                | Some h \<Rightarrow> w\<lparr>history := h\<rparr>))"

text \<open>The state of a freshly started process over a given durable storage (lines 6-11).\<close>

definition init :: "bool \<Rightarrow> (string \<rightharpoonup> string) \<Rightarrow> app" where
  "init geo store =
     \<lparr>location = None, error = [], loading = False, copied = False, history = [],
      showHistory = False, inputValue = [], localStorage = store, console = [],
      geolocation_supported = geo, geo_requests = []\<rparr>"

text \<open>
  Mounting runs both effects with the first render's \<open>history = []\<close>: the hydration, and
  the persist effect, which writes nothing for the empty array. When the hydration has
  called \<open>setHistory\<close>, the persist effect runs again with the loaded array. Both cases
  are the persist effect applied after the hydration.
\<close>

definition mount :: "json \<Rightarrow> bool \<Rightarrow> (string \<rightharpoonup> string) \<Rightarrow> app" where
  "mount J geo store = persist_effect J (load_effect J (init geo store))"

text \<open>
  One call of \<open>addToHistory\<close> together with the persist effect that the new array
  triggers after the render.
\<close>

definition add :: "json \<Rightarrow> location \<Rightarrow> app \<Rightarrow> app" where
  "add J loc w = persist_effect J (w\<lparr>history := addToHistory loc (history w)\<rparr>)"

text \<open>\<open>clearHistory\<close> (lines 168-172), followed by the persist effect for the new array.\<close>

definition clearHistory :: "json \<Rightarrow> app \<Rightarrow> app" where
  "clearHistory J w =
     persist_effect J
       (w\<lparr>history := [],
          localStorage := (localStorage w)(HISTORY_KEY := None),
          showHistory := False\<rparr>)"

datatype store_op = Add location | Clear

fun apply_store_op :: "json \<Rightarrow> app \<Rightarrow> store_op \<Rightarrow> app" where
  "apply_store_op J w (Add loc) = add J loc w"
| "apply_store_op J w Clear = clearHistory J w"

definition run_store_ops :: "json \<Rightarrow> store_op list \<Rightarrow> app \<Rightarrow> app" where
  "run_store_ops J ops w = foldl (apply_store_op J) w ops"

definition add_all :: "json \<Rightarrow> location list \<Rightarrow> app \<Rightarrow> app" where
  "add_all J locs w = foldl (\<lambda>v loc. add J loc v) w locs"

section \<open>Reverse geocoding\<close>

text \<open>
  What the collaborator can answer to the \<open>fetch\<close> of lines 32-35: the request is
  rejected (network failure), the body is not JSON (\<open>response.json()\<close> rejects), or the
  body parses to some JSON value, of any shape. An object is the list of its own
  properties; where a key is listed twice the first entry is the property. Numbers are
  carried as reals. A JavaScript value is a JSON value or \<open>undefined\<close> (\<open>None\<close>).
\<close>

datatype json_value =
  JNull
  | JBool bool
  | JNumber real
  | JString string
  | JArray "json_value list"
  | JObject "(string \<times> json_value) list"

type_synonym js_value = "json_value option"

datatype fetch_outcome = Rejected | InvalidJson | Parsed json_value

datatype js_error = FetchError | SyntaxError | TypeError

text \<open>
  Reading the property \<open>k\<close> of a value, for the names the function reads (\<open>status\<close>,
  \<open>results\<close>, \<open>formatted_address\<close>): \<open>undefined\<close> and \<open>null\<close> throw a TypeError, an
  object answers its own property or \<open>undefined\<close>, and no other value has a property of
  these names.
\<close>

definition js_property :: "js_value \<Rightarrow> string \<Rightarrow> js_error + js_value" where
  "js_property v k =
     (case v of
        None \<Rightarrow> Inl TypeError
      | Some JNull \<Rightarrow> Inl TypeError
      | Some (JObject fs) \<Rightarrow> Inr (map_of fs k)
      | Some _ \<Rightarrow> Inr None)"

text \<open>\<open>v.length\<close>: arrays and strings have one, an object may carry one as a property.\<close>

definition js_length :: "js_value \<Rightarrow> js_error + js_value" where
  "js_length v =
     (case v of
        None \<Rightarrow> Inl TypeError
      | Some JNull \<Rightarrow> Inl TypeError
      | Some (JArray xs) \<Rightarrow> Inr (Some (JNumber (real (length xs))))
      | Some (JString s) \<Rightarrow> Inr (Some (JNumber (real (length s))))
      | Some (JObject fs) \<Rightarrow> Inr (map_of fs ''length'')
      | Some _ \<Rightarrow> Inr None)"

text \<open>\<open>v[0]\<close>: the first element, the first character, or the property \<open>"0"\<close>.\<close>

definition js_first :: "js_value \<Rightarrow> js_error + js_value" where
  "js_first v =
     (case v of
        None \<Rightarrow> Inl TypeError
      | Some JNull \<Rightarrow> Inl TypeError
      | Some (JArray xs) \<Rightarrow> Inr (case xs of [] \<Rightarrow> None | x # _ \<Rightarrow> Some x)
      | Some (JString s) \<Rightarrow> Inr (case s of [] \<Rightarrow> None | c # _ \<Rightarrow> Some (JString [c]))
      | Some (JObject fs) \<Rightarrow> Inr (map_of fs ''0'')
      | Some _ \<Rightarrow> Inr None)"

text \<open>
  \<^verbatim>\<open>v > 0\<close>. \<open>undefined\<close> compares as NaN, \<open>null\<close> as 0, a boolean as 0 or 1. A string,
  an array or an object is first converted to a number by the platform; that conversion
  is the parameter \<open>coerced\<close>. It is consulted only for a \<open>length\<close> that is such a value,
  which only an object standing in for the result list can carry.
\<close>

definition js_greater_zero :: "(json_value \<Rightarrow> bool) \<Rightarrow> js_value \<Rightarrow> bool" where
  "js_greater_zero coerced v =
     (case v of
        None \<Rightarrow> False
      | Some JNull \<Rightarrow> False
      | Some (JBool b) \<Rightarrow> b
      | Some (JNumber n) \<Rightarrow> 0 < n
      | Some j \<Rightarrow> coerced j)"

definition UNKNOWN_LOCATION :: string where
  "UNKNOWN_LOCATION = ''Unknown location''"

text \<open>
  The body of the \<open>try\<close> block (lines 32-40), every throw a value. \<^verbatim>\<open>&&\<close> does not
  read \<open>data.results\<close> when the status is not the string \<open>"OK"\<close>; line 37 returns
  \<^verbatim>\<open>data.results[0].formatted_address\<close> as it finds it.
\<close>

definition geocode_try :: "(json_value \<Rightarrow> bool) \<Rightarrow> fetch_outcome \<Rightarrow> js_error + js_value" where
  "geocode_try coerced out =
     (case out of
        Rejected \<Rightarrow> Inl FetchError
      | InvalidJson \<Rightarrow> Inl SyntaxError
      | Parsed data \<Rightarrow>
          (case js_property (Some data) ''status'' of
             Inl e \<Rightarrow> Inl e
           | Inr st \<Rightarrow>
               if st \<noteq> Some (JString ''OK'') then Inr (Some (JString UNKNOWN_LOCATION))
               else
                 (case js_property (Some data) ''results'' of
                    Inl e \<Rightarrow> Inl e
                  | Inr rs \<Rightarrow>
                      (case js_length rs of
                         Inl e \<Rightarrow> Inl e
                       | Inr n \<Rightarrow>
                           if js_greater_zero coerced n
                           then (case js_first rs of
                                   Inl e \<Rightarrow> Inl e
                                 | Inr first \<Rightarrow> js_property first ''formatted_address'')
                           else Inr (Some (JString UNKNOWN_LOCATION))))))"

definition GEOCODE_FAILURE :: string where
  "GEOCODE_FAILURE = ''Reverse geocoding failed:''"

text \<open>
  \<open>getAddressFromLatLng\<close> (lines 30-45): the \<open>catch\<close> reports with \<open>console.error\<close> and
  answers the sentinel. The collaborator is a function of the coordinate pair. The
  answer is whatever value line 37 read, so it is a JavaScript value, not always a
  string.
\<close>

definition getAddressFromLatLng ::
  "(json_value \<Rightarrow> bool) \<Rightarrow> (real \<Rightarrow> real \<Rightarrow> fetch_outcome) \<Rightarrow> real \<Rightarrow> real \<Rightarrow> app
     \<Rightarrow> js_value \<times> app" where
  "getAddressFromLatLng coerced geocoder latitude longitude w =
     (case geocode_try coerced (geocoder latitude longitude) of
        Inr address \<Rightarrow> (address, w)
      | Inl e \<Rightarrow>
          (Some (JString UNKNOWN_LOCATION), w\<lparr>console := console w @ [GEOCODE_FAILURE]\<rparr>))"

section \<open>The orchestrator's handlers\<close>

text \<open>
  The place handed over by the autocomplete widget (lines 56-66). The geometry may be
  absent; \<^verbatim>\<open>place.formatted_address || place.name\<close> takes the formatted address unless
  it is absent or empty.
\<close>

record place =
  place_formatted_address :: "string option"
  place_name :: string
  place_geometry :: "(real \<times> real) option"

definition NO_DETAILS :: string where
  "NO_DETAILS = ''No details available for this place''"

text \<open>The \<open>place_changed\<close> listener (lines 55-76); \<open>now\<close> is \<open>new Date().toISOString()\<close>.\<close>

definition place_changed :: "json \<Rightarrow> place \<Rightarrow> string \<Rightarrow> app \<Rightarrow> app" where
  "place_changed J p now w =
     (case place_geometry p of
        None \<Rightarrow> w\<lparr>error := NO_DETAILS\<rparr>
      | Some (plat, plng) \<Rightarrow>
          (let newLocation =
                 \<lparr>name = (case place_formatted_address p of
                             None \<Rightarrow> place_name p
                           | Some a \<Rightarrow> if a = [] then place_name p else a),
                  lat = plat, lng = plng, accuracy = FromSearch, timestamp = now\<rparr>
           in persist_effect J
                (w\<lparr>location := Some newLocation,
                   history := addToHistory newLocation (history w),
                   error := []\<rparr>)))"

definition NOT_SUPPORTED :: string where
  "NOT_SUPPORTED = ''Geolocation is not supported by your browser.''"

definition LOCATE_OPTIONS :: position_options where
  "LOCATE_OPTIONS = \<lparr>enableHighAccuracy = True, timeout = 10000, maximumAge = 0\<rparr>"

text \<open>
  \<open>getCurrentLocation\<close> up to the call of \<open>getCurrentPosition\<close> (lines 106-115); the
  request issued is recorded in \<open>geo_requests\<close>.
\<close>

definition getCurrentLocation :: "app \<Rightarrow> app" where
  "getCurrentLocation w =
     (if \<not> geolocation_supported w then w\<lparr>error := NOT_SUPPORTED\<rparr>
      else w\<lparr>loading := True, error := [],
             geo_requests := geo_requests w @ [LOCATE_OPTIONS]\<rparr>)"

text \<open>
  The "Get My Location" button (lines 237-248) is rendered with
  \<^verbatim>\<open>onClick={getCurrentLocation} disabled={loading}\<close>: a disabled button dispatches no
  click, so the handler runs only when \<open>loading\<close> is false.
\<close>

definition locateButton_onClick :: "app \<Rightarrow> app" where
  "locateButton_onClick w = (if loading w then w else getCurrentLocation w)"

text \<open>
  The success callback (lines 116-132) from the awaited address on: \<open>address\<close> is what
  \<open>getAddressFromLatLng\<close> answered at line 119. A location's name is a string in this
  model, so the callback is modelled for the answers that are strings.
\<close>

record coords =
  latitude :: real
  longitude :: real
  coords_accuracy :: real

definition position_success :: "json \<Rightarrow> coords \<Rightarrow> string \<Rightarrow> string \<Rightarrow> app \<Rightarrow> app" where
  "position_success J c address now w =
     (let newLocation =
            \<lparr>name = address, lat = latitude c, lng = longitude c,
             accuracy = Meters (coords_accuracy c), timestamp = now\<rparr>
      in persist_effect J
           (w\<lparr>location := Some newLocation,
              history := addToHistory newLocation (history w),
              loading := False\<rparr>))"

text \<open>The error callback (lines 133-137); \<open>message\<close> is \<open>err.message\<close>.\<close>

definition position_error :: "string \<Rightarrow> app \<Rightarrow> app" where
  "position_error message w =
     w\<lparr>error := ''Error: '' @ message, location := None, loading := False\<rparr>"

text \<open>\<open>selectFromHistory\<close> (lines 160-166).\<close>

definition selectFromHistory :: "location \<Rightarrow> app \<Rightarrow> app" where
  "selectFromHistory historyItem w =
     w\<lparr>location := Some historyItem, showHistory := False, inputValue := name historyItem\<rparr>"

text \<open>
  \<open>copyCoordinates\<close> (lines 146-152) as far as the state goes, and the timer that
  resets the flag.
\<close>

definition copyCoordinates :: "app \<Rightarrow> app" where
  "copyCoordinates w = (case location w of None \<Rightarrow> w | Some l \<Rightarrow> w\<lparr>copied := True\<rparr>)"

definition copied_timeout :: "app \<Rightarrow> app" where
  "copied_timeout w = w\<lparr>copied := False\<rparr>"

text \<open>Everything that can happen to the mounted component.\<close>

datatype event =
  PlaceChanged place string
  | LocateClicked
  | PositionSuccess coords string string
  | PositionError string
  | HistorySelected location
  | ClearAllClicked
  | InputClicked
  | CopyClicked
  | CopiedTimeout

fun handle :: "json \<Rightarrow> app \<Rightarrow> event \<Rightarrow> app" where
  "handle J w (PlaceChanged p now) = place_changed J p now w"
| "handle J w LocateClicked = locateButton_onClick w"
| "handle J w (PositionSuccess c address now) = position_success J c address now w"
| "handle J w (PositionError message) = position_error message w"
| "handle J w (HistorySelected item) = selectFromHistory item w"
| "handle J w ClearAllClicked = clearHistory J w"
| "handle J w InputClicked = w\<lparr>showHistory := True\<rparr>"
| "handle J w CopyClicked = copyCoordinates w"
| "handle J w CopiedTimeout = copied_timeout w"

text \<open>The events that reach \<open>setHistory\<close>: an add or a clear.\<close>

fun touches_history :: "event \<Rightarrow> bool" where
  "touches_history (PlaceChanged p now) = (place_geometry p \<noteq> None)"
| "touches_history (PositionSuccess c address now) = True"
| "touches_history ClearAllClicked = True"
| "touches_history e = False"

text \<open>
  The component and its durable storage agree: a non-empty history is what the key
  holds, serialised, and an empty history is what the hydration reads from the storage.
\<close>

definition in_sync :: "json \<Rightarrow> app \<Rightarrow> bool" where
  "in_sync J w =
     (if history w = []
      then history (load_effect J (init False (localStorage w))) = []
      else localStorage w HISTORY_KEY = Some (JSON_stringify J (history w)))"

section \<open>Worked values\<close>

text \<open>
  Locations, a codec and a freshly started component for the worked examples. The
  codec knows the serialisation of one history and of the empty array; every other text
  is malformed for it.
\<close>

definition loc_A :: location where
  "loc_A = \<lparr>name = ''A'', lat = 28.61, lng = 77.21, accuracy = FromSearch, timestamp = ''2024-01-01T10:00:00.000Z''\<rparr>"

definition loc_B :: location where
  "loc_B = \<lparr>name = ''B'', lat = 19.08, lng = 72.88, accuracy = Meters 12.5, timestamp = ''2024-01-01T10:01:00.000Z''\<rparr>"

definition loc_C :: location where
  "loc_C = \<lparr>name = ''C'', lat = 12.97, lng = 77.59, accuracy = FromSearch, timestamp = ''2024-01-01T10:02:00.000Z''\<rparr>"

definition loc_D :: location where
  "loc_D = \<lparr>name = ''D'', lat = 13.08, lng = 80.27, accuracy = FromSearch, timestamp = ''2024-01-01T10:03:00.000Z''\<rparr>"

definition loc_E :: location where
  "loc_E = \<lparr>name = ''E'', lat = 22.57, lng = 88.36, accuracy = FromSearch, timestamp = ''2024-01-01T10:04:00.000Z''\<rparr>"

definition loc_F :: location where
  "loc_F = \<lparr>name = ''F'', lat = 17.39, lng = 78.49, accuracy = Meters 30, timestamp = ''2024-01-01T10:05:00.000Z''\<rparr>"

definition loc_A2 :: location where
  "loc_A2 = \<lparr>name = ''A'', lat = 28.7, lng = 77.1, accuracy = Meters 8, timestamp = ''2024-01-01T10:06:00.000Z''\<rparr>"

definition example_json :: json where
  "example_json =
     \<lparr>JSON_parse = (\<lambda>s. if s = ''[A2,C,B]'' then Some [loc_A2, loc_C, loc_B]
                         else if s = ''[]'' then Some [] else None),
      JSON_stringify = (\<lambda>h. if h = [loc_A2, loc_C, loc_B] then ''[A2,C,B]'' else ''[...]'')\<rparr>"

definition example_app :: app where
  "example_app = init True Map.empty"

definition malformed_store :: "string \<rightharpoonup> string" where
  "malformed_store = [HISTORY_KEY \<mapsto> ''{not json'']"

definition empty_text_store :: "string \<rightharpoonup> string" where
  "empty_text_store = [HISTORY_KEY \<mapsto> []]"

definition ok_geocoder :: "real \<Rightarrow> real \<Rightarrow> fetch_outcome" where
  "ok_geocoder la lo =
     Parsed (JObject
       [(''results'',
           JArray [JObject [(''formatted_address'', JString ''Connaught Place, New Delhi''),
                            (''place_id'', JString ''p1'')],
                   JObject [(''formatted_address'', JString ''New Delhi, Delhi'')]]),
        (''status'', JString ''OK'')])"

definition denied_geocoder :: "real \<Rightarrow> real \<Rightarrow> fetch_outcome" where
  "denied_geocoder la lo =
     Parsed (JObject [(''results'', JArray []), (''status'', JString ''REQUEST_DENIED'')])"

definition offline_geocoder :: "real \<Rightarrow> real \<Rightarrow> fetch_outcome" where
  "offline_geocoder la lo = Rejected"

definition no_address_geocoder :: "real \<Rightarrow> real \<Rightarrow> fetch_outcome" where
  "no_address_geocoder la lo =
     Parsed (JObject
       [(''results'', JArray [JObject [(''place_id'', JString ''x'')]]),
        (''status'', JString ''OK'')])"

definition null_result_geocoder :: "real \<Rightarrow> real \<Rightarrow> fetch_outcome" where
  "null_result_geocoder la lo =
     Parsed (JObject [(''results'', JArray [JNull]), (''status'', JString ''OK'')])"

definition no_coercion :: "json_value \<Rightarrow> bool" where
  "no_coercion j = False"

definition locating_app :: app where
  "locating_app =
     (init True Map.empty)\<lparr>loading := True, error := NO_DETAILS,
                             geo_requests := [LOCATE_OPTIONS]\<rparr>"

section \<open>Properties of the recent-locations store\<close>

lemmas loc_defs = loc_A_def loc_B_def loc_C_def loc_D_def loc_E_def loc_F_def loc_A2_def

lemma length_addToHistory: "length (addToHistory loc prev) \<le> 5"
  by (simp add: addToHistory_def)

lemma history_persist_effect: "history (persist_effect J w) = history w"
  by (simp add: persist_effect_def)

lemma history_add: "history (add J loc w) = addToHistory loc (history w)"
  by (simp add: add_def history_persist_effect)

lemma add_all_snoc: "add_all J (locs @ [loc]) w = add J loc (add_all J locs w)"
  by (simp add: add_all_def)

lemma addToHistory_eq:
  "addToHistory loc prev = loc # take 4 (filter (\<lambda>item. name item \<noteq> name loc) prev)"
  by (simp add: addToHistory_def)

text \<open>
  C1. After any sequence of adds the history holds at most 5 entries. One add is enough
  to reach the bound from any list whatever; with no add at all the bound is the one the
  starting history already has.
\<close>

theorem history_length_bounded:
  "(locs \<noteq> [] \<longrightarrow> length (history (add_all J locs w)) \<le> 5) \<and>
   (length (history w) \<le> 5 \<longrightarrow> length (history (add_all J locs w)) \<le> 5)"
proof (cases locs rule: rev_cases)
  case Nil
  then show ?thesis by (simp add: add_all_def)
next
  case (snoc ls l)
  then show ?thesis
    by (simp add: add_all_snoc history_add length_addToHistory)
qed

theorem history_length_bounded_witness:
  "[loc_A, loc_B, loc_C, loc_D, loc_E, loc_F, loc_A2] \<noteq> [] \<and>
   length (history (add_all example_json [loc_A, loc_B, loc_C, loc_D, loc_E, loc_F, loc_A2] example_app)) \<le> 5 \<and>
   history (add_all example_json [loc_A, loc_B, loc_C, loc_D, loc_E, loc_F, loc_A2] example_app)
     = [loc_A2, loc_F, loc_E, loc_D, loc_C] \<and>
   length (history example_app) \<le> 5 \<and>
   length (history (add_all example_json [] example_app)) \<le> 5"
  using history_length_bounded [of "[loc_A, loc_B, loc_C, loc_D, loc_E, loc_F, loc_A2]" example_json example_app]
    history_length_bounded [of "[]" example_json example_app]
  by (simp add: add_all_def history_add addToHistory_def example_app_def init_def loc_defs)

text \<open>
  C2. Adding a location whose name is already in the history: the new record is the
  first entry, it is the only entry with that name, the entries behind it are the other
  old entries in their old order (a subsequence of the old history, cut to four), and
  when the old history respects the bound of 5 none of them is lost. The worked example
  is the scenario add A, add B, add C, add A again, which ends as [A, C, B] with the
  fields of the second A.
\<close>

theorem add_existing_name:
  assumes "name loc \<in> name ` set (history w)"
  shows "history (add J loc w) =
           loc # take 4 (filter (\<lambda>item. name item \<noteq> name loc) (history w)) \<and>
         length (filter (\<lambda>item. name item = name loc) (history (add J loc w))) = 1 \<and>
         subseq (tl (history (add J loc w))) (history w) \<and>
         (length (history w) \<le> 5 \<longrightarrow>
            history (add J loc w) = loc # filter (\<lambda>item. name item \<noteq> name loc) (history w))"
proof -
  let ?rest = "filter (\<lambda>item. name item \<noteq> name loc) (history w)"
  have eq: "history (add J loc w) = loc # take 4 ?rest"
    by (simp add: history_add addToHistory_eq)
  have "filter (\<lambda>item. name item = name loc) (take 4 ?rest) = []"
    by (auto simp: filter_empty_conv dest: in_set_takeD)
  then have one: "length (filter (\<lambda>item. name item = name loc) (history (add J loc w))) = 1"
    by (simp add: eq)
  have "subseq (take 4 ?rest) ?rest"
    by (simp add: sublist_imp_subseq)
  then have "subseq (take 4 ?rest) (history w)"
    by (rule subseq_order.order_trans) (rule subseq_filter_left)
  then have sub: "subseq (tl (history (add J loc w))) (history w)"
    by (simp add: eq)
  have full: "history (add J loc w) = loc # ?rest" if "length (history w) \<le> 5"
  proof -
    from assms obtain old where "old \<in> set (history w)" "name old = name loc" by auto
    then have "length ?rest < length (history w)"
      by (simp add: length_filter_less [of old])
    with that have "length ?rest \<le> 4" by simp
    then show ?thesis by (simp add: eq)
  qed
  from eq one sub full show ?thesis by blast
qed

theorem add_existing_name_witness:
  "name loc_A2 \<in> name ` set (history (add_all example_json [loc_A, loc_B, loc_C] example_app)) \<and>
   history (add example_json loc_A2 (add_all example_json [loc_A, loc_B, loc_C] example_app))
     = [loc_A2, loc_C, loc_B] \<and>
   length (filter (\<lambda>item. name item = ''A'')
     (history (add example_json loc_A2 (add_all example_json [loc_A, loc_B, loc_C] example_app)))) = 1"
  using add_existing_name
    [of loc_A2 "add_all example_json [loc_A, loc_B, loc_C] example_app" example_json]
  by (simp add: add_all_def history_add addToHistory_def example_app_def init_def loc_defs)

text \<open>
  C3. A history of exactly 5 entries and a location with a name not among them: the
  result is the new location followed by the first four old entries, so its length is 5
  again, and the fifth (oldest) entry is gone.
\<close>

theorem add_sixth_evicts_oldest:
  assumes "length (history w) = 5"
      and "name loc \<notin> name ` set (history w)"
  shows "history (add J loc w) = loc # butlast (history w) \<and>
         length (history (add J loc w)) = 5 \<and>
         hd (history (add J loc w)) = loc \<and>
         (distinct (map name (history w)) \<longrightarrow> last (history w) \<notin> set (history (add J loc w)))"
proof -
  have "name item \<noteq> name loc" if "item \<in> set (history w)" for item
    using assms(2) that by (metis imageI)
  then have keep: "filter (\<lambda>item. name item \<noteq> name loc) (history w) = history w"
    by (simp add: filter_id_conv)
  from assms(1) have "take 4 (history w) = butlast (history w)"
    by (simp add: butlast_conv_take)
  with keep have eq: "history (add J loc w) = loc # butlast (history w)"
    by (simp add: history_add addToHistory_eq)
  from assms(1) have ne: "history w \<noteq> []" by auto
  from assms(2) ne have "last (history w) \<noteq> loc"
    by (metis imageI last_in_set)
  moreover have "last (history w) \<notin> set (butlast (history w))" if "distinct (map name (history w))"
  proof -
    from that have "distinct (history w)" by (simp add: distinct_map)
    with ne have "distinct (butlast (history w) @ [last (history w)])" by simp
    then show ?thesis by simp
  qed
  ultimately show ?thesis using eq assms(1) by simp
qed

theorem add_sixth_evicts_oldest_witness:
  "length (history (add_all example_json [loc_A, loc_B, loc_C, loc_D, loc_E] example_app)) = 5 \<and>
   name loc_F \<notin> name ` set (history (add_all example_json [loc_A, loc_B, loc_C, loc_D, loc_E] example_app)) \<and>
   distinct (map name (history (add_all example_json [loc_A, loc_B, loc_C, loc_D, loc_E] example_app))) \<and>
   history (add example_json loc_F (add_all example_json [loc_A, loc_B, loc_C, loc_D, loc_E] example_app))
     = [loc_F, loc_E, loc_D, loc_C, loc_B] \<and>
   loc_A \<notin> set (history (add example_json loc_F
     (add_all example_json [loc_A, loc_B, loc_C, loc_D, loc_E] example_app)))"
  using add_sixth_evicts_oldest
    [of "add_all example_json [loc_A, loc_B, loc_C, loc_D, loc_E] example_app" loc_F example_json]
  by (simp add: add_all_def history_add addToHistory_def example_app_def init_def loc_defs)

text \<open>
  C5. Adding the same location twice in a row leaves the component, durable storage
  included, exactly as adding it once: one entry with that name, at the front.
\<close>

theorem add_twice_same:
  "add J x (add J x w) = add J x w \<and> hd (history (add J x (add J x w))) = x \<and>
   length (filter (\<lambda>item. name item = name x) (history (add J x (add J x w)))) = 1"
proof -
  let ?rest = "filter (\<lambda>item. name item \<noteq> name x) (history w)"
  have keep: "filter (\<lambda>item. name item \<noteq> name x) (take 4 ?rest) = take 4 ?rest"
    by (auto simp: filter_id_conv dest: in_set_takeD)
  then have idem: "addToHistory x (addToHistory x (history w)) = addToHistory x (history w)"
    by (simp add: addToHistory_eq)
  have same: "add J x (add J x w) = add J x w"
    by (simp add: add_def persist_effect_def addToHistory_eq keep)
  have "filter (\<lambda>item. name item = name x) (take 4 ?rest) = []"
    by (auto simp: filter_empty_conv dest: in_set_takeD)
  then show ?thesis
    by (simp add: same history_add addToHistory_eq)
qed

section \<open>Persistence and reload\<close>

lemma persist_effect_empty: "history w = [] \<Longrightarrow> persist_effect J w = w"
  by (simp add: persist_effect_def)

lemma history_load_effect_init:
  "history (load_effect J (init geo store)) = history (load_effect J (init geo' store))"
  by (simp add: load_effect_def init_def split: option.splits)

lemma history_mount: "history (mount J geo store) = history (load_effect J (init False store))"
  by (simp add: mount_def history_persist_effect history_load_effect_init [of J geo store False])

lemma localStorage_load_effect: "localStorage (load_effect J w) = localStorage w"
  by (simp add: load_effect_def split: option.splits)

lemma in_sync_persist_effect:
  assumes "history w = [] \<Longrightarrow> history (load_effect J (init False (localStorage w))) = []"
  shows "in_sync J (persist_effect J w)"
  using assms by (simp add: in_sync_def persist_effect_def)

lemma in_sync_mount: "in_sync J (mount J geo store)"
  unfolding mount_def
proof (rule in_sync_persist_effect)
  assume "history (load_effect J (init geo store)) = []"
  then have "history (load_effect J (init False store)) = []"
    by (simp add: history_load_effect_init [of J False store geo])
  then show "history (load_effect J (init False (localStorage (load_effect J (init geo store))))) = []"
    by (simp add: localStorage_load_effect init_def)
qed

lemma in_sync_add: "in_sync J (add J loc w)"
  unfolding add_def by (rule in_sync_persist_effect) (simp add: addToHistory_eq)

lemma in_sync_clearHistory: "in_sync J (clearHistory J w)"
  unfolding clearHistory_def
  by (rule in_sync_persist_effect) (simp add: load_effect_def init_def)

lemma in_sync_run_store_ops: "in_sync J w \<Longrightarrow> in_sync J (run_store_ops J ops w)"
proof (induction ops arbitrary: w)
  case Nil
  then show ?case by (simp add: run_store_ops_def)
next
  case (Cons a ops)
  have "in_sync J (apply_store_op J w a)"
    by (cases a) (simp_all add: in_sync_add in_sync_clearHistory)
  then have "in_sync J (run_store_ops J ops (apply_store_op J w a))"
    by (rule Cons.IH)
  then show ?case by (simp add: run_store_ops_def)
qed

lemma reload_in_sync:
  assumes "in_sync J w"
      and "history w \<noteq> [] \<Longrightarrow>
             JSON_stringify J (history w) \<noteq> [] \<and>
             JSON_parse J (JSON_stringify J (history w)) = Some (history w)"
  shows "history (mount J geo (localStorage w)) = history w"
proof (cases "history w = []")
  case True
  with assms(1) show ?thesis by (simp add: in_sync_def history_mount)
next
  case False
  with assms(1) have "localStorage w HISTORY_KEY = Some (JSON_stringify J (history w))"
    by (simp add: in_sync_def)
  with assms(2) [OF False] show ?thesis
    by (simp add: history_mount load_effect_def init_def)
qed

lemmas store_defs = run_store_ops_def mount_def add_def clearHistory_def persist_effect_def
  load_effect_def init_def addToHistory_def example_json_def HISTORY_KEY_def

text \<open>
  C4. A process starts over any durable storage, runs any sequence of adds and clears,
  and ends with history \<open>h\<close>; the next process, mounting over the storage left behind,
  loads exactly \<open>h\<close>. The codec enters through the one fact the round trip needs:
  parsing the serialisation of a non-empty final history gives that history back, and
  that serialisation is not the empty text. After a clear, the next process loads the
  empty history.
\<close>

theorem persist_reload_roundtrip:
  assumes "w = run_store_ops J ops (mount J geo store)"
      and "history w \<noteq> [] \<Longrightarrow>
             JSON_stringify J (history w) \<noteq> [] \<and>
             JSON_parse J (JSON_stringify J (history w)) = Some (history w)"
  shows "history (mount J geo' (localStorage w)) = history w \<and>
         history (mount J geo' (localStorage (clearHistory J v))) = []"
proof -
  have "in_sync J w"
    unfolding assms(1) by (rule in_sync_run_store_ops) (rule in_sync_mount)
  then have first: "history (mount J geo' (localStorage w)) = history w"
    using assms(2) by (rule reload_in_sync)
  have "history (clearHistory J v) = []"
    by (simp add: clearHistory_def history_persist_effect)
  then have "history (mount J geo' (localStorage (clearHistory J v))) = history (clearHistory J v)"
    by (intro reload_in_sync in_sync_clearHistory) simp
  with first \<open>history (clearHistory J v) = []\<close> show ?thesis by simp
qed

theorem persist_reload_roundtrip_witness:
  "history (run_store_ops example_json
      [Add loc_A, Add loc_B, Clear, Add loc_B, Add loc_C, Add loc_A2]
      (mount example_json True Map.empty)) = [loc_A2, loc_C, loc_B] \<and>
   JSON_stringify example_json [loc_A2, loc_C, loc_B] \<noteq> [] \<and>
   JSON_parse example_json (JSON_stringify example_json [loc_A2, loc_C, loc_B])
     = Some [loc_A2, loc_C, loc_B] \<and>
   history (mount example_json True (localStorage (run_store_ops example_json
      [Add loc_A, Add loc_B, Clear, Add loc_B, Add loc_C, Add loc_A2]
      (mount example_json True Map.empty)))) = [loc_A2, loc_C, loc_B] \<and>
   history (mount example_json True (localStorage (clearHistory example_json
      (run_store_ops example_json
        [Add loc_A, Add loc_B, Clear, Add loc_B, Add loc_C, Add loc_A2]
        (mount example_json True Map.empty))))) = []"
proof -
  have h: "history (run_store_ops example_json
      [Add loc_A, Add loc_B, Clear, Add loc_B, Add loc_C, Add loc_A2]
      (mount example_json True Map.empty)) = [loc_A2, loc_C, loc_B]"
    by (simp add: store_defs loc_defs)
  have c: "JSON_stringify example_json [loc_A2, loc_C, loc_B] \<noteq> [] \<and>
     JSON_parse example_json (JSON_stringify example_json [loc_A2, loc_C, loc_B])
       = Some [loc_A2, loc_C, loc_B]"
    by (simp add: example_json_def)
  show ?thesis
    using persist_reload_roundtrip
      [OF refl, of example_json
        "[Add loc_A, Add loc_B, Clear, Add loc_B, Add loc_C, Add loc_A2]" True Map.empty True
        "run_store_ops example_json
          [Add loc_A, Add loc_B, Clear, Add loc_B, Add loc_C, Add loc_A2]
          (mount example_json True Map.empty)"]
      h c
    by simp
qed

text \<open>
  C9, as the code has it. Mounting over a storage without the history key, or with the
  empty text under it, leaves the freshly initialised component as it is: nothing is
  parsed, nothing is logged, the history is empty. Mounting over a non-empty text that
  \<open>JSON.parse\<close> rejects logs the parse failure on the console and changes nothing else:
  the history stays empty and the user-visible error stays empty. The thrown error ends
  in the \<open>catch\<close>; in all three cases mounting yields a state.
\<close>

theorem load_missing_empty_or_rejected:
  "(store HISTORY_KEY = None \<or> store HISTORY_KEY = Some [] \<longrightarrow>
      mount J geo store = init geo store) \<and>
   (store HISTORY_KEY = Some s \<and> s \<noteq> [] \<and> JSON_parse J s = None \<longrightarrow>
      mount J geo store = (init geo store)\<lparr>console := [PARSE_FAILURE]\<rparr>) \<and>
   history (init geo store) = [] \<and> console (init geo store) = [] \<and>
   error ((init geo store)\<lparr>console := [PARSE_FAILURE]\<rparr>) = [] \<and>
   history ((init geo store)\<lparr>console := [PARSE_FAILURE]\<rparr>) = []"
proof -
  have skipped: "mount J geo store = init geo store"
    if "store HISTORY_KEY = None \<or> store HISTORY_KEY = Some []"
    using that by (auto simp: mount_def load_effect_def persist_effect_def init_def)
  have rejected: "mount J geo store = (init geo store)\<lparr>console := [PARSE_FAILURE]\<rparr>"
    if "store HISTORY_KEY = Some s \<and> s \<noteq> [] \<and> JSON_parse J s = None"
    using that by (simp add: mount_def load_effect_def persist_effect_def init_def)
  from skipped rejected show ?thesis
    by (simp add: init_def)
qed

theorem load_missing_empty_or_rejected_witness:
  "Map.empty HISTORY_KEY = (None :: string option) \<and>
   history (mount example_json True Map.empty) = [] \<and>
   console (mount example_json True Map.empty) = [] \<and>
   empty_text_store HISTORY_KEY = Some [] \<and>
   history (mount example_json True empty_text_store) = [] \<and>
   console (mount example_json True empty_text_store) = [] \<and>
   malformed_store HISTORY_KEY = Some ''{not json'' \<and>
   JSON_parse example_json ''{not json'' = None \<and>
   history (mount example_json True malformed_store) = [] \<and>
   console (mount example_json True malformed_store) = [PARSE_FAILURE] \<and>
   error (mount example_json True malformed_store) = []"
  using load_missing_empty_or_rejected
      [where store = Map.empty and J = example_json and geo = True and s = "''{not json''"]
    load_missing_empty_or_rejected
      [where store = empty_text_store and J = example_json and geo = True and s = "''{not json''"]
    load_missing_empty_or_rejected
      [where store = malformed_store and J = example_json and geo = True and s = "''{not json''"]
  by (simp add: malformed_store_def empty_text_store_def example_json_def init_def)

text \<open>
  The empty text is malformed content, \<open>JSON.parse\<close> rejects it, and it can stand under
  the key; yet line 82 takes it for a missing value, so no error is reported for it.
\<close>

theorem load_empty_text_counterexample:
  "empty_text_store HISTORY_KEY = Some [] \<and>
   JSON_parse example_json [] = None \<and>
   console (mount example_json True empty_text_store) = [] \<and>
   console (mount example_json True empty_text_store) \<noteq> [PARSE_FAILURE]"
  by (simp add: empty_text_store_def example_json_def mount_def load_effect_def
      persist_effect_def init_def)

section \<open>The malformed value outlives the process\<close>

lemma handle_keeps_store:
  assumes "\<not> touches_history e"
  shows "localStorage (handle J w e) = localStorage w \<and> history (handle J w e) = history w"
proof (cases e)
  case (PlaceChanged p now)
  with assms show ?thesis by (cases "place_geometry p") (simp_all add: place_changed_def)
next
  case LocateClicked
  then show ?thesis by (simp add: locateButton_onClick_def getCurrentLocation_def)
next
  case CopyClicked
  then show ?thesis by (simp add: copyCoordinates_def split: option.splits)
qed (use assms in \<open>simp_all add: position_error_def selectFromHistory_def copied_timeout_def\<close>)

lemma events_keep_store:
  assumes "\<forall>e \<in> set evs. \<not> touches_history e"
  shows "localStorage (foldl (handle J) w evs) = localStorage w \<and>
         history (foldl (handle J) w evs) = history w"
  using assms
proof (induction evs arbitrary: w)
  case Nil
  then show ?case by simp
next
  case (Cons e evs)
  then have "\<not> touches_history e" and rest: "\<forall>e \<in> set evs. \<not> touches_history e"
    by simp_all
  from handle_keeps_store [OF this(1), of J w] Cons.IH [OF rest, of "handle J w e"]
  show ?case by simp
qed

text \<open>
  C10. A value under the history key that \<open>JSON.parse\<close> rejects is still there after
  the mount, and after any sequence of events that neither adds a location nor clears:
  the persist effect writes nothing while the history is empty. A later start over that
  storage therefore logs the same parse failure again and starts empty again. The value
  goes away with the first add, which overwrites it with the serialised one-entry
  history, or with a clear, which removes the key.
\<close>

theorem malformed_value_stays:
  assumes "store HISTORY_KEY = Some s" and "s \<noteq> []" and "JSON_parse J s = None"
      and "\<forall>e \<in> set evs. \<not> touches_history e"
      and "w = foldl (handle J) (mount J geo store) evs"
  shows "localStorage (mount J geo store) = store \<and>
         localStorage w = store \<and> history w = [] \<and> persist_effect J w = w \<and>
         mount J geo' (localStorage w) = (init geo' store)\<lparr>console := [PARSE_FAILURE]\<rparr> \<and>
         localStorage (add J loc w) HISTORY_KEY = Some (JSON_stringify J [loc]) \<and>
         localStorage (clearHistory J w) HISTORY_KEY = None"
proof -
  have m: "mount J geo' store = (init geo' store)\<lparr>console := [PARSE_FAILURE]\<rparr>" for geo'
    using assms(1-3) by (simp add: mount_def load_effect_def persist_effect_def init_def)
  then have m0: "localStorage (mount J geo store) = store" "history (mount J geo store) = []"
    by (simp_all add: init_def)
  with events_keep_store [OF assms(4), of J "mount J geo store"] assms(5)
  have w: "localStorage w = store" "history w = []" by simp_all
  then show ?thesis
    using m m0
    by (simp add: persist_effect_empty add_def clearHistory_def persist_effect_def addToHistory_eq)
qed

theorem malformed_value_stays_witness:
  "malformed_store HISTORY_KEY = Some ''{not json'' \<and>
   JSON_parse example_json ''{not json'' = None \<and>
   localStorage (foldl (handle example_json)
       (mount example_json True malformed_store)
       [InputClicked, LocateClicked, PositionError ''Timeout expired'', CopyClicked])
     = malformed_store \<and>
   console (mount example_json True (localStorage (foldl (handle example_json)
       (mount example_json True malformed_store)
       [InputClicked, LocateClicked, PositionError ''Timeout expired'', CopyClicked])))
     = [PARSE_FAILURE] \<and>
   localStorage (clearHistory example_json (foldl (handle example_json)
       (mount example_json True malformed_store)
       [InputClicked, LocateClicked, PositionError ''Timeout expired'', CopyClicked])) HISTORY_KEY
     = None"
proof -
  have p1: "malformed_store HISTORY_KEY = Some ''{not json''"
    by (simp add: malformed_store_def)
  have p2: "''{not json'' \<noteq> []" by simp
  have p3: "JSON_parse example_json ''{not json'' = None"
    by (simp add: example_json_def)
  have p4: "\<forall>e \<in> set [InputClicked, LocateClicked, PositionError ''Timeout expired'', CopyClicked].
      \<not> touches_history e"
    by simp
  note r = malformed_value_stays
    [where J = example_json and geo = True and geo' = True
       and loc = loc_A and store = malformed_store and s = "''{not json''"
       and evs = "[InputClicked, LocateClicked, PositionError ''Timeout expired'', CopyClicked]",
     OF p1 p2 p3 p4 refl]
  note kept = r [THEN conjunct2, THEN conjunct1]
  note again = r [THEN conjunct2, THEN conjunct2, THEN conjunct2, THEN conjunct2, THEN conjunct1]
  note cleared = r [THEN conjunct2, THEN conjunct2, THEN conjunct2, THEN conjunct2,
    THEN conjunct2, THEN conjunct2]
  have logged: "console (mount example_json True (localStorage
      (foldl (handle example_json) (mount example_json True malformed_store)
        [InputClicked, LocateClicked, PositionError ''Timeout expired'', CopyClicked])))
      = [PARSE_FAILURE]"
    by (subst again) simp
  show ?thesis
    by (intro conjI) (rule p1 p3 kept logged cleared)+
qed

section \<open>Reverse geocoding and device location\<close>

lemma geocode_try_other_status:
  assumes "\<forall>fs. out = Parsed (JObject fs) \<longrightarrow> map_of fs ''status'' \<noteq> Some (JString ''OK'')"
  shows "geocode_try coerced out = Inr (Some (JString UNKNOWN_LOCATION)) \<or>
         (\<exists>e. geocode_try coerced out = Inl e)"
proof (cases out)
  case (Parsed data)
  with assms show ?thesis
    by (cases data) (simp_all add: geocode_try_def js_property_def)
qed (simp_all add: geocode_try_def)

lemma getAddressFromLatLng_sentinel:
  assumes "geocode_try coerced (geocoder la lo) = Inr (Some (JString UNKNOWN_LOCATION)) \<or>
           (\<exists>e. geocode_try coerced (geocoder la lo) = Inl e)"
  shows "fst (getAddressFromLatLng coerced geocoder la lo w) = Some (JString ''Unknown location'')"
  using assms by (auto simp: getAddressFromLatLng_def UNKNOWN_LOCATION_def)

text \<open>
  C6, as the code has it. For every coordinate pair and every answer of the
  collaborator: with status \<open>"OK"\<close> and a non-empty result list whose first entry is an
  object, the function returns that entry's \<open>formatted_address\<close> as it finds it, which
  is the address when the field is there and \<open>undefined\<close> when it is not; every answer
  with another status, and status \<open>"OK"\<close> with an empty result list, gives
  \<open>"Unknown location"\<close>; and whenever the body of the \<open>try\<close> block throws (rejected
  request, body that is not JSON, \<open>null\<close> body, status \<open>"OK"\<close> with the result list
  absent or \<open>null\<close>, or with a first entry that is \<open>null\<close>) the function still returns,
  with the sentinel and one console entry.
\<close>

theorem reverse_geocode_result:
  "(geocoder la lo = Parsed (JObject fs) \<and> map_of fs ''status'' = Some (JString ''OK'') \<and>
      map_of fs ''results'' = Some (JArray (JObject r # rs)) \<longrightarrow>
      getAddressFromLatLng coerced geocoder la lo w = (map_of r ''formatted_address'', w)) \<and>
   ((\<forall>fs. geocoder la lo = Parsed (JObject fs) \<longrightarrow>
        map_of fs ''status'' \<noteq> Some (JString ''OK'')) \<longrightarrow>
      fst (getAddressFromLatLng coerced geocoder la lo w) = Some (JString ''Unknown location'')) \<and>
   (geocoder la lo = Parsed (JObject fs) \<and> map_of fs ''status'' = Some (JString ''OK'') \<and>
      map_of fs ''results'' = Some (JArray []) \<longrightarrow>
      getAddressFromLatLng coerced geocoder la lo w = (Some (JString ''Unknown location''), w)) \<and>
   (geocode_try coerced (geocoder la lo) = Inl e \<longrightarrow>
      getAddressFromLatLng coerced geocoder la lo w =
        (Some (JString ''Unknown location''), w\<lparr>console := console w @ [GEOCODE_FAILURE]\<rparr>)) \<and>
   (geocoder la lo = Parsed (JObject fs) \<and> map_of fs ''status'' = Some (JString ''OK'') \<and>
      (map_of fs ''results'' = None \<or> map_of fs ''results'' = Some JNull \<or>
       map_of fs ''results'' = Some (JArray (JNull # rs))) \<longrightarrow>
      geocode_try coerced (geocoder la lo) = Inl TypeError) \<and>
   (geocoder la lo = Parsed (JObject fs) \<and> map_of fs ''status'' = Some (JString ''OK'') \<and>
      map_of fs ''results'' = Some (JArray (x # rs)) \<longrightarrow>
      geocode_try coerced (geocoder la lo) = js_property (Some x) ''formatted_address'')"
proof (intro conjI impI)
  assume "geocoder la lo = Parsed (JObject fs) \<and> map_of fs ''status'' = Some (JString ''OK'') \<and>
      map_of fs ''results'' = Some (JArray (JObject r # rs))"
  then show "getAddressFromLatLng coerced geocoder la lo w = (map_of r ''formatted_address'', w)"
    by (simp add: getAddressFromLatLng_def geocode_try_def js_property_def js_length_def
        js_first_def js_greater_zero_def)
next
  assume "\<forall>fs. geocoder la lo = Parsed (JObject fs) \<longrightarrow>
      map_of fs ''status'' \<noteq> Some (JString ''OK'')"
  then show "fst (getAddressFromLatLng coerced geocoder la lo w) = Some (JString ''Unknown location'')"
    by (intro getAddressFromLatLng_sentinel geocode_try_other_status)
next
  assume "geocoder la lo = Parsed (JObject fs) \<and> map_of fs ''status'' = Some (JString ''OK'') \<and>
      map_of fs ''results'' = Some (JArray [])"
  then show "getAddressFromLatLng coerced geocoder la lo w = (Some (JString ''Unknown location''), w)"
    by (simp add: getAddressFromLatLng_def geocode_try_def js_property_def js_length_def
        js_greater_zero_def UNKNOWN_LOCATION_def)
next
  assume "geocode_try coerced (geocoder la lo) = Inl e"
  then show "getAddressFromLatLng coerced geocoder la lo w =
      (Some (JString ''Unknown location''), w\<lparr>console := console w @ [GEOCODE_FAILURE]\<rparr>)"
    by (simp add: getAddressFromLatLng_def UNKNOWN_LOCATION_def)
next
  assume "geocoder la lo = Parsed (JObject fs) \<and> map_of fs ''status'' = Some (JString ''OK'') \<and>
      (map_of fs ''results'' = None \<or> map_of fs ''results'' = Some JNull \<or>
       map_of fs ''results'' = Some (JArray (JNull # rs)))"
  then show "geocode_try coerced (geocoder la lo) = Inl TypeError"
    by (auto simp: geocode_try_def js_property_def js_length_def js_first_def
        js_greater_zero_def)
next
  assume "geocoder la lo = Parsed (JObject fs) \<and> map_of fs ''status'' = Some (JString ''OK'') \<and>
      map_of fs ''results'' = Some (JArray (x # rs))"
  then show "geocode_try coerced (geocoder la lo) = js_property (Some x) ''formatted_address''"
    by (simp add: geocode_try_def js_property_def js_length_def js_first_def
        js_greater_zero_def)
qed

theorem reverse_geocode_result_witness:
  "getAddressFromLatLng no_coercion ok_geocoder 28.61 77.21 example_app
     = (Some (JString ''Connaught Place, New Delhi''), example_app) \<and>
   getAddressFromLatLng no_coercion no_address_geocoder 28.61 77.21 example_app
     = (None, example_app) \<and>
   fst (getAddressFromLatLng no_coercion denied_geocoder 28.61 77.21 example_app)
     = Some (JString ''Unknown location'') \<and>
   geocode_try no_coercion (offline_geocoder 28.61 77.21) = Inl FetchError \<and>
   getAddressFromLatLng no_coercion offline_geocoder 28.61 77.21 example_app
     = (Some (JString ''Unknown location''),
        example_app\<lparr>console := console example_app @ [GEOCODE_FAILURE]\<rparr>) \<and>
   geocode_try no_coercion (null_result_geocoder 28.61 77.21) = Inl TypeError \<and>
   getAddressFromLatLng no_coercion null_result_geocoder 28.61 77.21 example_app
     = (Some (JString ''Unknown location''),
        example_app\<lparr>console := console example_app @ [GEOCODE_FAILURE]\<rparr>)"
proof -
  note ok = reverse_geocode_result
    [where geocoder = ok_geocoder and la = "28.61" and lo = "77.21" and coerced = no_coercion
       and w = example_app and e = TypeError
       and fs = "[(''results'',
           JArray [JObject [(''formatted_address'', JString ''Connaught Place, New Delhi''),
                            (''place_id'', JString ''p1'')],
                   JObject [(''formatted_address'', JString ''New Delhi, Delhi'')]]),
        (''status'', JString ''OK'')]"
       and r = "[(''formatted_address'', JString ''Connaught Place, New Delhi''),
                 (''place_id'', JString ''p1'')]"
       and rs = "[JObject [(''formatted_address'', JString ''New Delhi, Delhi'')]]"
       and x = JNull]
  note missing = reverse_geocode_result
    [where geocoder = no_address_geocoder and la = "28.61" and lo = "77.21"
       and coerced = no_coercion and w = example_app and e = TypeError
       and fs = "[(''results'', JArray [JObject [(''place_id'', JString ''x'')]]),
                  (''status'', JString ''OK'')]"
       and r = "[(''place_id'', JString ''x'')]" and rs = "[]" and x = JNull]
  note denied = reverse_geocode_result
    [where geocoder = denied_geocoder and la = "28.61" and lo = "77.21"
       and coerced = no_coercion and w = example_app and e = TypeError and fs = "[]"
       and r = "[]" and rs = "[]" and x = JNull]
  note offline = reverse_geocode_result
    [where geocoder = offline_geocoder and la = "28.61" and lo = "77.21"
       and coerced = no_coercion and w = example_app and e = FetchError and fs = "[]"
       and r = "[]" and rs = "[]" and x = JNull]
  note null_first = reverse_geocode_result
    [where geocoder = null_result_geocoder and la = "28.61" and lo = "77.21"
       and coerced = no_coercion and w = example_app and e = TypeError
       and fs = "[(''results'', JArray [JNull]), (''status'', JString ''OK'')]"
       and r = "[]" and rs = "[]" and x = JNull]
  have a: "getAddressFromLatLng no_coercion ok_geocoder 28.61 77.21 example_app
     = (Some (JString ''Connaught Place, New Delhi''), example_app)"
    using ok by (simp add: ok_geocoder_def)
  have b: "getAddressFromLatLng no_coercion no_address_geocoder 28.61 77.21 example_app
     = (None, example_app)"
    using missing by (simp add: no_address_geocoder_def)
  have c: "fst (getAddressFromLatLng no_coercion denied_geocoder 28.61 77.21 example_app)
     = Some (JString ''Unknown location'')"
    using denied by (simp add: denied_geocoder_def)
  have d: "geocode_try no_coercion (offline_geocoder 28.61 77.21) = Inl FetchError"
    by (simp add: offline_geocoder_def geocode_try_def)
  have e: "getAddressFromLatLng no_coercion offline_geocoder 28.61 77.21 example_app
     = (Some (JString ''Unknown location''),
        example_app\<lparr>console := console example_app @ [GEOCODE_FAILURE]\<rparr>)"
    using offline d by simp
  have f: "geocode_try no_coercion (null_result_geocoder 28.61 77.21) = Inl TypeError"
    using null_first by (simp add: null_result_geocoder_def)
  have g: "getAddressFromLatLng no_coercion null_result_geocoder 28.61 77.21 example_app
     = (Some (JString ''Unknown location''),
        example_app\<lparr>console := console example_app @ [GEOCODE_FAILURE]\<rparr>)"
    using null_first f by simp
  show ?thesis
    by (intro conjI) (rule a b c d e f g)+
qed

text \<open>
  The sentinel does not cover every malformed answer. For the body
  \<^verbatim>\<open>{"results": [{"place_id": "x"}], "status": "OK"}\<close> line 37 reads a field that is
  not there, and the function returns \<open>undefined\<close>: neither an address nor the sentinel.
\<close>

theorem reverse_geocode_missing_address_counterexample:
  "fst (getAddressFromLatLng no_coercion no_address_geocoder 28.61 77.21 example_app) = None \<and>
   fst (getAddressFromLatLng no_coercion no_address_geocoder 28.61 77.21 example_app)
     \<noteq> Some (JString ''Unknown location'')"
  by (simp add: getAddressFromLatLng_def geocode_try_def js_property_def js_length_def
      js_first_def js_greater_zero_def no_address_geocoder_def)

text \<open>
  C7, as the code has it. When the device location fails, the error shown is the text
  \<open>"Error: "\<close> followed by the collaborator's reason, the current selection is cleared,
  the loading flag is reset, and neither the history nor the durable storage changes.
\<close>

theorem locate_failure_effects:
  "error (position_error message w) = ''Error: '' @ message \<and>
   location (position_error message w) = None \<and>
   loading (position_error message w) = False \<and>
   history (position_error message w) = history w \<and>
   localStorage (position_error message w) = localStorage w"
  by (simp add: position_error_def)

text \<open>
  The message is not the bare reason text: for the reason "User denied Geolocation" the
  component shows "Error: User denied Geolocation".
\<close>

theorem locate_failure_message_counterexample:
  "error (position_error ''User denied Geolocation'' (init True Map.empty))
     \<noteq> ''User denied Geolocation''"
  by (simp add: position_error_def)

text \<open>
  C8. While a device location is pending the locate button is disabled, so asking for
  the location again changes nothing and issues no further request. The guard is the
  button's \<open>disabled\<close> attribute; \<open>getCurrentLocation\<close> has no check of its own, as the
  lemma after the worked example records.
\<close>

theorem locate_while_locating_noop:
  assumes "loading w"
  shows "locateButton_onClick w = w \<and>
         geo_requests (locateButton_onClick w) = geo_requests w"
  using assms by (simp add: locateButton_onClick_def)

theorem locate_while_locating_noop_witness:
  "loading locating_app \<and> locateButton_onClick locating_app = locating_app \<and>
   geo_requests (locateButton_onClick locating_app) = [LOCATE_OPTIONS]"
  using locate_while_locating_noop [of locating_app]
  by (simp add: locating_app_def init_def)

lemma getCurrentLocation_unguarded:
  "geolocation_supported w \<Longrightarrow>
     geo_requests (getCurrentLocation w) = geo_requests w @ [LOCATE_OPTIONS] \<and>
     error (getCurrentLocation w) = []"
  by (simp add: getCurrentLocation_def)

end
